theory Spec2Isabelle
  imports Complex_Main
begin

section \<open>Two-stage renewable portfolio model: the embedding\<close>

text \<open>
  The development follows \<^verbatim>\<open>scr/model.py\<close> (\<^verbatim>\<open>build_two_stage_model\<close>,
  \<^verbatim>\<open>solve_model\<close>) and the reporting part of \<^verbatim>\<open>scr/main.py\<close>.

  The Pyomo model is embedded as the symbolic object the builder assembles: index sets,
  parameters, variable declarations with their domains, constraints as relational
  expressions over variables and parameters, and the objective expression. Demand values
  and cost coefficients are Python floats in the source; they are real numbers here, so
  the linear program is the mathematical one and rounding is not modelled.
\<close>

subsection \<open>Python and library failures\<close>

datatype py_error =
    ZeroDivisionError
  | KeyError
  | IndexError
  | ValueError
  | PyomoException

subsection \<open>The input frame\<close>

text \<open>
  A \<^verbatim>\<open>pandas.DataFrame\<close> as the builder sees it: its number of rows
  (\<^verbatim>\<open>len(data_df)\<close>), the numeric column \<^verbatim>\<open>"demand"\<close> when the frame has one, and
  every other column (timestamps, prices, ...) as uninterpreted cells.
\<close>

record data_frame =
  nrows :: nat
  demand_col :: "real list option"
  other_cols :: "(string \<times> string list) list"

text \<open>In a frame, every column has one cell per row.\<close>

definition wf_frame :: "data_frame \<Rightarrow> bool" where
  "wf_frame df \<longleftrightarrow>
     (case demand_col df of None \<Rightarrow> True | Some d \<Rightarrow> length d = nrows df) \<and>
     list_all (\<lambda>(name, cells). length cells = nrows df) (other_cols df)"

text \<open>Python slicing \<^verbatim>\<open>xs[a:b]\<close>: negative bounds count from the end, all bounds are clamped.\<close>

definition slice_bound :: "nat \<Rightarrow> int \<Rightarrow> nat" where
  "slice_bound n k = (if k < 0 then nat (max 0 (int n + k)) else min n (nat k))"

definition py_slice :: "int \<Rightarrow> int \<Rightarrow> 'a list \<Rightarrow> 'a list" where
  "py_slice a b xs =
     (let lo = slice_bound (length xs) a; hi = slice_bound (length xs) b
      in take (hi - lo) (drop lo xs))"

text \<open>
  Python indexing \<^verbatim>\<open>xs[i]\<close>: an index from \<open>-len\<close> to \<open>-1\<close> counts from the end; an index
  outside \<open>[-len, len)\<close> raises \<^verbatim>\<open>IndexError\<close>.
\<close>

definition py_index :: "'a list \<Rightarrow> int \<Rightarrow> py_error + 'a" where
  "py_index xs i =
     (if 0 \<le> i \<and> i < int (length xs) then Inr (xs ! nat i)
      else if i < 0 \<and> 0 \<le> int (length xs) + i then Inr (xs ! nat (int (length xs) + i))
      else Inl IndexError)"

text \<open>
  \<^verbatim>\<open>data_df.iloc[a:b]["demand"].values\<close>: the row slice, then the column, which raises
  \<^verbatim>\<open>KeyError\<close> when the frame has no such column.
\<close>

definition iloc_demand_values :: "data_frame \<Rightarrow> int \<Rightarrow> int \<Rightarrow> py_error + real list" where
  "iloc_demand_values df a b =
     (case demand_col df of
        None \<Rightarrow> Inl KeyError
      | Some d \<Rightarrow> Inr (py_slice a b d))"

text \<open>Running a fallible step over a list stops at the first failure, as the exception would.\<close>

fun map_result :: "('a \<Rightarrow> 'e + 'b) \<Rightarrow> 'a list \<Rightarrow> 'e + 'b list" where
  "map_result f [] = Inr []"
| "map_result f (x # xs) =
     (case f x of
        Inl e \<Rightarrow> Inl e
      | Inr y \<Rightarrow> (case map_result f xs of Inl e \<Rightarrow> Inl e | Inr ys \<Rightarrow> Inr (y # ys)))"

subsection \<open>Scenario construction (model.py, lines 29 to 34)\<close>

text \<open>
  \<^verbatim>\<open>chunk_size = len(data_df) // num_scenarios\<close> raises \<^verbatim>\<open>ZeroDivisionError\<close> for a zero
  count; Python's floor division is \<open>div\<close> on \<open>int\<close>. The loop runs over
  \<^verbatim>\<open>range(num_scenarios)\<close>, which is empty for a negative count.
\<close>

definition chunk_size_of :: "data_frame \<Rightarrow> int \<Rightarrow> py_error + int" where
  "chunk_size_of df num_scenarios =
     (if num_scenarios = 0 then Inl ZeroDivisionError
      else Inr (int (nrows df) div num_scenarios))"

definition demand_scenarios :: "data_frame \<Rightarrow> int \<Rightarrow> py_error + real list list" where
  "demand_scenarios df num_scenarios =
     (case chunk_size_of df num_scenarios of
        Inl e \<Rightarrow> Inl e
      | Inr chunk_size \<Rightarrow>
          map_result
            (\<lambda>i. iloc_demand_values df (int i * chunk_size) ((int i + 1) * chunk_size))
            [0 ..< nat num_scenarios])"

subsection \<open>Symbolic model components\<close>

datatype var =
    Wind_capacity
  | Solar_capacity
  | Gen_wind int int
  | Gen_solar int int
  | Load_shed int int
  | Excess_cost int
  | T_cvar

datatype param =
    Cost_of_wind
  | Cost_of_solar
  | Demand int int

datatype expr =
    V var
  | P param
  | C real
  | Add expr expr
  | Sub expr expr
  | Mul expr expr
  | Div expr expr

datatype rel =
    Le expr expr
  | Ge expr expr

datatype var_domain = Reals | NonNegativeReals

datatype sense = minimize | maximize

record model =
  SCENARIOS :: "int list"
  TIME :: "int list"
  cost_of_wind :: real
  cost_of_solar :: real
  demand :: "((int \<times> int) \<times> real) list"
  wind_capacity :: var_domain
  solar_capacity :: var_domain
  gen_wind :: "((int \<times> int) \<times> var_domain) list"
  gen_solar :: "((int \<times> int) \<times> var_domain) list"
  load_shed :: "((int \<times> int) \<times> var_domain) list"
  excess_cost :: "(int \<times> var_domain) list"
  t_cvar :: var_domain
  wind_gen_limit :: "((int \<times> int) \<times> rel) list"
  solar_gen_limit :: "((int \<times> int) \<times> rel) list"
  demand_constraint :: "((int \<times> int) \<times> rel) list"
  excess_cost_constraint :: "(int \<times> rel) list"
  cvar_constraint :: "(int \<times> rel) list"
  obj :: expr
  obj_sense :: sense
  var_value :: "var \<Rightarrow> real option"

text \<open>
  \<^verbatim>\<open>RangeSet(lo, hi)\<close> with unit step, as Pyomo constructs it: the integers from \<open>lo\<close> to
  \<open>hi\<close>; \<open>hi = lo - 1\<close> is accepted as the empty set; any \<open>hi\<close> further below \<open>lo\<close> is
  rejected with \<^verbatim>\<open>ValueError\<close>.
\<close>

definition RangeSet :: "int \<Rightarrow> int \<Rightarrow> py_error + int list" where
  "RangeSet lo hi =
     (if hi - lo = - 1 then Inr []
      else if hi < lo then Inl ValueError
      else Inr [lo .. hi])"

text \<open>
  Python's built-in \<^verbatim>\<open>sum\<close> starts from 0 and adds the items from left to right.
\<close>

definition builtin_sum :: "expr list \<Rightarrow> expr" where
  "builtin_sum xs = foldl Add (C 0) xs"

text \<open>
  Python's built-in \<^verbatim>\<open>max\<close> keeps the first item and replaces it by a later item
  whenever \<^verbatim>\<open>item > current\<close> is truthy; on an empty sequence it raises
  \<^verbatim>\<open>ValueError\<close>. The items here are Pyomo variable objects, so \<^verbatim>\<open>item > current\<close> builds a
  relational expression and Python asks the library for its truth value. That answer
  (a Boolean, or an exception) belongs to the library, not to this repository, and is the
  parameter \<open>gt\<close>.
\<close>

type_synonym truth_of_gt = "expr \<Rightarrow> expr \<Rightarrow> py_error + bool"

fun max_from :: "truth_of_gt \<Rightarrow> expr \<Rightarrow> expr list \<Rightarrow> py_error + expr" where
  "max_from gt cur [] = Inr cur"
| "max_from gt cur (x # xs) =
     (case gt x cur of
        Inl e \<Rightarrow> Inl e
      | Inr b \<Rightarrow> max_from gt (if b then x else cur) xs)"

fun builtin_max :: "truth_of_gt \<Rightarrow> expr list \<Rightarrow> py_error + expr" where
  "builtin_max gt [] = Inl ValueError"
| "builtin_max gt (x # xs) = max_from gt x xs"

subsection \<open>Constraint and objective rules (model.py, lines 69 to 103)\<close>

definition penalty_of_load_shed :: real where
  "penalty_of_load_shed = 2000"

definition lambda_risk :: real where
  "lambda_risk = 3 / 10"

definition wind_gen_limit_rule :: "int \<Rightarrow> int \<Rightarrow> rel" where
  "wind_gen_limit_rule s t = Le (V (Gen_wind s t)) (V Wind_capacity)"

definition solar_gen_limit_rule :: "int \<Rightarrow> int \<Rightarrow> rel" where
  "solar_gen_limit_rule s t = Le (V (Gen_solar s t)) (V Solar_capacity)"

definition demand_rule :: "int \<Rightarrow> int \<Rightarrow> rel" where
  "demand_rule s t =
     Le (P (Demand s t)) (Add (Add (V (Gen_wind s t)) (V (Gen_solar s t))) (V (Load_shed s t)))"

definition time_cost :: "int list \<Rightarrow> int \<Rightarrow> expr" where
  "time_cost time s =
     builtin_sum (map (\<lambda>t. Mul (V (Load_shed s t)) (C penalty_of_load_shed)) time)"

definition invest_cost :: expr where
  "invest_cost =
     Add (Mul (V Wind_capacity) (P Cost_of_wind)) (Mul (V Solar_capacity) (P Cost_of_solar))"

definition scenario_cost_rule :: "int list \<Rightarrow> int \<Rightarrow> rel" where
  "scenario_cost_rule time s = Ge (V (Excess_cost s)) (Add invest_cost (time_cost time s))"

definition cvar_constraint_rule :: "int \<Rightarrow> rel" where
  "cvar_constraint_rule s = Le (Sub (V (Excess_cost s)) (V T_cvar)) (C 0)"

definition avg_cost :: "int list \<Rightarrow> int \<Rightarrow> expr" where
  "avg_cost scenarios num_scenarios =
     Div (builtin_sum (map (\<lambda>s. V (Excess_cost s)) scenarios)) (C (of_int num_scenarios))"

definition max_cost :: "truth_of_gt \<Rightarrow> int \<Rightarrow> py_error + expr" where
  "max_cost gt num_scenarios =
     builtin_max gt (map (\<lambda>s. V (Excess_cost (int s))) [0 ..< nat num_scenarios])"

definition objective_rule :: "truth_of_gt \<Rightarrow> int list \<Rightarrow> int \<Rightarrow> py_error + expr" where
  "objective_rule gt scenarios num_scenarios =
     (case max_cost gt num_scenarios of
        Inl e \<Rightarrow> Inl e
      | Inr mx \<Rightarrow> Inr (Add (avg_cost scenarios num_scenarios) (Mul (C lambda_risk) mx)))"

text \<open>
  \<^verbatim>\<open>demand_init\<close> reads \<^verbatim>\<open>demand_scenarios[s][t]\<close>; the parameter is initialised for every
  index pair of \<^verbatim>\<open>SCENARIOS\<close> times \<^verbatim>\<open>TIME\<close>.
\<close>

definition demand_init :: "real list list \<Rightarrow> int \<Rightarrow> int \<Rightarrow> py_error + real" where
  "demand_init ds s t =
     (case py_index ds s of
        Inl e \<Rightarrow> Inl e
      | Inr row \<Rightarrow> py_index row t)"

definition demand_param ::
  "real list list \<Rightarrow> int list \<Rightarrow> int list \<Rightarrow> py_error + ((int \<times> int) \<times> real) list" where
  "demand_param ds scenarios time =
     map_result
       (\<lambda>(s, t). case demand_init ds s t of Inl e \<Rightarrow> Inl e | Inr v \<Rightarrow> Inr ((s, t), v))
       (List.product scenarios time)"

definition indexed :: "'i list \<Rightarrow> ('i \<Rightarrow> 'a) \<Rightarrow> ('i \<times> 'a) list" where
  "indexed idx f = map (\<lambda>i. (i, f i)) idx"

subsection \<open>The builder (model.py, lines 9 to 107)\<close>

text \<open>
  The statements run in source order, so the first failing one decides the outcome:
  the floor division, the scenario loop, the two index sets, the demand parameter, and
  last the objective rule. \<open>alpha_cvar\<close> is a parameter of the function, as in the source.
  The unused local \<^verbatim>\<open>bigM\<close> is left out. For a negative scenario count the loop body never
  runs and the scenario index set is rejected; the objective rule would fail there as
  well, since \<^verbatim>\<open>max\<close> of the empty \<^verbatim>\<open>range(num_scenarios)\<close> raises \<^verbatim>\<open>ValueError\<close>.
\<close>

definition formulate ::
  "truth_of_gt \<Rightarrow> int \<Rightarrow> int \<Rightarrow> real list list \<Rightarrow> py_error + model" where
  "formulate gt num_scenarios time_points_per_scenario ds =
     (case RangeSet 0 (num_scenarios - 1) of
        Inl e \<Rightarrow> Inl e
      | Inr scenarios \<Rightarrow>
     (case RangeSet 0 (time_points_per_scenario - 1) of
        Inl e \<Rightarrow> Inl e
      | Inr time \<Rightarrow>
     (case demand_param ds scenarios time of
        Inl e \<Rightarrow> Inl e
      | Inr dem \<Rightarrow>
     (case objective_rule gt scenarios num_scenarios of
        Inl e \<Rightarrow> Inl e
      | Inr ob \<Rightarrow>
          Inr \<lparr> SCENARIOS = scenarios,
                TIME = time,
                cost_of_wind = 1000,
                cost_of_solar = 800,
                demand = dem,
                wind_capacity = NonNegativeReals,
                solar_capacity = NonNegativeReals,
                gen_wind = indexed (List.product scenarios time) (\<lambda>i. NonNegativeReals),
                gen_solar = indexed (List.product scenarios time) (\<lambda>i. NonNegativeReals),
                load_shed = indexed (List.product scenarios time) (\<lambda>i. NonNegativeReals),
                excess_cost = indexed scenarios (\<lambda>i. NonNegativeReals),
                t_cvar = NonNegativeReals,
                wind_gen_limit =
                  indexed (List.product scenarios time) (\<lambda>(s, t). wind_gen_limit_rule s t),
                solar_gen_limit =
                  indexed (List.product scenarios time) (\<lambda>(s, t). solar_gen_limit_rule s t),
                demand_constraint =
                  indexed (List.product scenarios time) (\<lambda>(s, t). demand_rule s t),
                excess_cost_constraint = indexed scenarios (scenario_cost_rule time),
                cvar_constraint = indexed scenarios cvar_constraint_rule,
                obj = ob,
                obj_sense = minimize,
                var_value = (\<lambda>v. None) \<rparr>))))"

definition build_two_stage_model ::
  "truth_of_gt \<Rightarrow> data_frame \<Rightarrow> int \<Rightarrow> real \<Rightarrow> py_error + model" where
  "build_two_stage_model gt data_df num_scenarios alpha_cvar =
     (case chunk_size_of data_df num_scenarios of
        Inl e \<Rightarrow> Inl e
      | Inr chunk_size \<Rightarrow>
     (case demand_scenarios data_df num_scenarios of
        Inl e \<Rightarrow> Inl e
      | Inr ds \<Rightarrow> formulate gt num_scenarios chunk_size ds))"

subsection \<open>Meaning of the linear program\<close>

text \<open>
  Parameters are mutable Pyomo parameters, so they stay symbolic inside expressions and
  are read from the model when an expression is evaluated. A point assigns a real to
  every variable.
\<close>

definition param_value :: "model \<Rightarrow> param \<Rightarrow> real" where
  "param_value m p =
     (case p of
        Cost_of_wind \<Rightarrow> cost_of_wind m
      | Cost_of_solar \<Rightarrow> cost_of_solar m
      | Demand s t \<Rightarrow> (case map_of (demand m) (s, t) of Some v \<Rightarrow> v | None \<Rightarrow> 0))"

fun eval :: "(param \<Rightarrow> real) \<Rightarrow> (var \<Rightarrow> real) \<Rightarrow> expr \<Rightarrow> real" where
  "eval pv x (V v) = x v"
| "eval pv x (P p) = pv p"
| "eval pv x (C c) = c"
| "eval pv x (Add a b) = eval pv x a + eval pv x b"
| "eval pv x (Sub a b) = eval pv x a - eval pv x b"
| "eval pv x (Mul a b) = eval pv x a * eval pv x b"
| "eval pv x (Div a b) = eval pv x a / eval pv x b"

fun holds :: "(param \<Rightarrow> real) \<Rightarrow> (var \<Rightarrow> real) \<Rightarrow> rel \<Rightarrow> bool" where
  "holds pv x (Le a b) \<longleftrightarrow> eval pv x a \<le> eval pv x b"
| "holds pv x (Ge a b) \<longleftrightarrow> eval pv x a \<ge> eval pv x b"

fun in_domain :: "var_domain \<Rightarrow> real \<Rightarrow> bool" where
  "in_domain Reals r \<longleftrightarrow> True"
| "in_domain NonNegativeReals r \<longleftrightarrow> 0 \<le> r"

text \<open>A feasible point respects every variable's domain and every constraint of the model.\<close>

definition domains_ok :: "model \<Rightarrow> (var \<Rightarrow> real) \<Rightarrow> bool" where
  "domains_ok m x \<longleftrightarrow>
     in_domain (wind_capacity m) (x Wind_capacity) \<and>
     in_domain (solar_capacity m) (x Solar_capacity) \<and>
     list_all (\<lambda>((s, t), d). in_domain d (x (Gen_wind s t))) (gen_wind m) \<and>
     list_all (\<lambda>((s, t), d). in_domain d (x (Gen_solar s t))) (gen_solar m) \<and>
     list_all (\<lambda>((s, t), d). in_domain d (x (Load_shed s t))) (load_shed m) \<and>
     list_all (\<lambda>(s, d). in_domain d (x (Excess_cost s))) (excess_cost m) \<and>
     in_domain (t_cvar m) (x T_cvar)"

definition constraints_ok :: "model \<Rightarrow> (var \<Rightarrow> real) \<Rightarrow> bool" where
  "constraints_ok m x \<longleftrightarrow>
     list_all (\<lambda>(i, r). holds (param_value m) x r) (wind_gen_limit m) \<and>
     list_all (\<lambda>(i, r). holds (param_value m) x r) (solar_gen_limit m) \<and>
     list_all (\<lambda>(i, r). holds (param_value m) x r) (demand_constraint m) \<and>
     list_all (\<lambda>(i, r). holds (param_value m) x r) (excess_cost_constraint m) \<and>
     list_all (\<lambda>(i, r). holds (param_value m) x r) (cvar_constraint m)"

definition feasible_point :: "model \<Rightarrow> (var \<Rightarrow> real) \<Rightarrow> bool" where
  "feasible_point m x \<longleftrightarrow> domains_ok m x \<and> constraints_ok m x"

text \<open>
  The objective as the specification words it: the mean of the scenario costs plus
  \<open>lambda_risk\<close> times their maximum, at a point \<open>x\<close>, for \<open>n\<close> scenarios.
\<close>

definition objective_spec :: "nat \<Rightarrow> (var \<Rightarrow> real) \<Rightarrow> real" where
  "objective_spec n x =
     (\<Sum>s \<leftarrow> [0 ..< n]. x (Excess_cost (int s))) / real n
     + lambda_risk * Max (set (map (\<lambda>s. x (Excess_cost (int s))) [0 ..< n]))"

text \<open>The value of the built objective at a point; a failed build has none.\<close>

definition built_objective ::
  "truth_of_gt \<Rightarrow> data_frame \<Rightarrow> int \<Rightarrow> real \<Rightarrow> (var \<Rightarrow> real) \<Rightarrow> py_error + real" where
  "built_objective gt data_df num_scenarios alpha_cvar x =
     (case build_two_stage_model gt data_df num_scenarios alpha_cvar of
        Inl e \<Rightarrow> Inl e
      | Inr m \<Rightarrow> Inr (eval (param_value m) x (obj m)))"

subsection \<open>Solving (model.py, lines 109 to 121)\<close>

text \<open>
  \<^verbatim>\<open>SolverFactory("glpk").solve(model, tee=False)\<close> is the external solver: it either
  raises or returns a results object, having stored values in the model. The solver is a
  parameter. The names below are those of Pyomo's termination conditions that the
  specification distinguishes, with \<open>other\<close> for the remaining ones.
\<close>

datatype TerminationCondition =
    optimal
  | feasible
  | infeasible
  | unbounded
  | error
  | other

record solver_results =
  termination_condition :: TerminationCondition

type_synonym solver = "model \<Rightarrow> py_error + (model \<times> solver_results)"

record world =
  solver_calls :: nat
  stdout :: "string list"

fun show_condition :: "TerminationCondition \<Rightarrow> string" where
  "show_condition optimal = ''optimal''"
| "show_condition feasible = ''feasible''"
| "show_condition infeasible = ''infeasible''"
| "show_condition unbounded = ''unbounded''"
| "show_condition error = ''error''"
| "show_condition other = ''other''"

definition print :: "string \<Rightarrow> world \<Rightarrow> world" where
  "print line w = w\<lparr>stdout := stdout w @ [line]\<rparr>"

definition call_solver ::
  "solver \<Rightarrow> model \<Rightarrow> world \<Rightarrow> (py_error + (model \<times> solver_results)) \<times> world" where
  "call_solver slv m w = (slv m, w\<lparr>solver_calls := solver_calls w + 1\<rparr>)"

definition solve_model ::
  "solver \<Rightarrow> model \<Rightarrow> world \<Rightarrow> (py_error + (model \<times> solver_results)) \<times> world" where
  "solve_model slv m w =
     (case call_solver slv m w of
        (Inl e, w1) \<Rightarrow> (Inl e, w1)
      | (Inr (m1, results), w1) \<Rightarrow>
          (if termination_condition results = optimal
              \<or> termination_condition results = feasible
           then (Inr (m1, results),
                 print ''Solver finished with a feasible/optimal solution.'' w1)
           else (Inr (m1, results),
                 print (''Solver finished with status: ''
                        @ show_condition (termination_condition results)) w1)))"

subsection \<open>Reading the results (main.py, lines 28 to 35)\<close>

text \<open>
  \<^verbatim>\<open>main\<close> receives the pair \<^verbatim>\<open>(model, results)\<close> from \<^verbatim>\<open>solve_model\<close> and reads the two
  capacities, the scenario costs over \<^verbatim>\<open>model.SCENARIOS\<close> and the objective. A variable's
  \<^verbatim>\<open>.value\<close> is \<^verbatim>\<open>None\<close> while the variable holds no value; evaluating the objective
  expression \<^verbatim>\<open>model.obj.expr()\<close> over a variable without a value raises \<^verbatim>\<open>ValueError\<close>.
\<close>

fun expr_value :: "(param \<Rightarrow> real) \<Rightarrow> (var \<Rightarrow> real option) \<Rightarrow> expr \<Rightarrow> py_error + real" where
  "expr_value pv vv (V v) = (case vv v of None \<Rightarrow> Inl ValueError | Some r \<Rightarrow> Inr r)"
| "expr_value pv vv (P p) = Inr (pv p)"
| "expr_value pv vv (C c) = Inr c"
| "expr_value pv vv (Add a b) =
     (case expr_value pv vv a of Inl e \<Rightarrow> Inl e | Inr ra \<Rightarrow>
      (case expr_value pv vv b of Inl e \<Rightarrow> Inl e | Inr rb \<Rightarrow> Inr (ra + rb)))"
| "expr_value pv vv (Sub a b) =
     (case expr_value pv vv a of Inl e \<Rightarrow> Inl e | Inr ra \<Rightarrow>
      (case expr_value pv vv b of Inl e \<Rightarrow> Inl e | Inr rb \<Rightarrow> Inr (ra - rb)))"
| "expr_value pv vv (Mul a b) =
     (case expr_value pv vv a of Inl e \<Rightarrow> Inl e | Inr ra \<Rightarrow>
      (case expr_value pv vv b of Inl e \<Rightarrow> Inl e | Inr rb \<Rightarrow> Inr (ra * rb)))"
| "expr_value pv vv (Div a b) =
     (case expr_value pv vv a of Inl e \<Rightarrow> Inl e | Inr ra \<Rightarrow>
      (case expr_value pv vv b of Inl e \<Rightarrow> Inl e | Inr rb \<Rightarrow>
       (if rb = 0 then Inl ZeroDivisionError else Inr (ra / rb))))"

record report =
  windCapacity :: "real option"
  solarCapacity :: "real option"
  scenarioCosts :: "real option list"
  objectiveValue :: real

definition main_report :: "model \<Rightarrow> solver_results \<Rightarrow> py_error + report" where
  "main_report m results =
     (let wind = var_value m Wind_capacity;
          solar = var_value m Solar_capacity;
          scenario_costs = map (\<lambda>s. var_value m (Excess_cost s)) (SCENARIOS m)
      in case expr_value (param_value m) (var_value m) (obj m) of
           Inl e \<Rightarrow> Inl e
         | Inr v \<Rightarrow>
             Inr \<lparr> windCapacity = wind, solarCapacity = solar,
                   scenarioCosts = scenario_costs, objectiveValue = v \<rparr>)"

subsection \<open>Concrete inputs\<close>

text \<open>
  Three answers the library can give to \<^verbatim>\<open>item > current\<close>: always truthy, always
  falsy, or an exception.
\<close>

definition gt_truthy :: truth_of_gt where "gt_truthy a b = Inr True"
definition gt_falsy :: truth_of_gt where "gt_falsy a b = Inr False"
definition gt_raises :: truth_of_gt where "gt_raises a b = Inl PyomoException"

text \<open>
  Frames: eleven rows for five scenarios; three rows for two scenarios, and a second
  three-row frame that differs in its timestamps, has a further column and another last
  demand value; a single row; no rows.
\<close>

definition frame11 :: data_frame where
  "frame11 = \<lparr> nrows = 11, demand_col = Some [1,2,3,4,5,6,7,8,9,10,11], other_cols = [] \<rparr>"

definition frame3 :: data_frame where
  "frame3 = \<lparr> nrows = 3, demand_col = Some [10, 20, 30],
               other_cols = [(''timestamp'', [''t0'', ''t1'', ''t2''])] \<rparr>"

definition frame3_other :: data_frame where
  "frame3_other = \<lparr> nrows = 3, demand_col = Some [10, 20, 99],
               other_cols = [(''timestamp'', [''u0'', ''u1'', ''u2'']), (''price'', [''1'', ''2'', ''3''])] \<rparr>"

definition frame1 :: data_frame where
  "frame1 = \<lparr> nrows = 1, demand_col = Some [5], other_cols = [] \<rparr>"

definition frame0 :: data_frame where
  "frame0 = \<lparr> nrows = 0, demand_col = Some [], other_cols = [] \<rparr>"

text \<open>The model built from \<open>frame3\<close> for two scenarios, a feasible point of it, and two cost assignments.\<close>

definition model3 :: model where
  "model3 = \<lparr> SCENARIOS = [0, 1], TIME = [0],
      cost_of_wind = 1000, cost_of_solar = 800,
      demand = [((0, 0), 10), ((1, 0), 20)],
      wind_capacity = NonNegativeReals, solar_capacity = NonNegativeReals,
      gen_wind = [((0, 0), NonNegativeReals), ((1, 0), NonNegativeReals)],
      gen_solar = [((0, 0), NonNegativeReals), ((1, 0), NonNegativeReals)],
      load_shed = [((0, 0), NonNegativeReals), ((1, 0), NonNegativeReals)],
      excess_cost = [(0, NonNegativeReals), (1, NonNegativeReals)],
      t_cvar = NonNegativeReals,
      wind_gen_limit = [((0, 0), Le (V (Gen_wind 0 0)) (V Wind_capacity)),
                        ((1, 0), Le (V (Gen_wind 1 0)) (V Wind_capacity))],
      solar_gen_limit = [((0, 0), Le (V (Gen_solar 0 0)) (V Solar_capacity)),
                         ((1, 0), Le (V (Gen_solar 1 0)) (V Solar_capacity))],
      demand_constraint =
        [((0, 0), Le (P (Demand 0 0))
                     (Add (Add (V (Gen_wind 0 0)) (V (Gen_solar 0 0))) (V (Load_shed 0 0)))),
         ((1, 0), Le (P (Demand 1 0))
                     (Add (Add (V (Gen_wind 1 0)) (V (Gen_solar 1 0))) (V (Load_shed 1 0))))],
      excess_cost_constraint =
        [(0, Ge (V (Excess_cost 0))
                (Add (Add (Mul (V Wind_capacity) (P Cost_of_wind))
                          (Mul (V Solar_capacity) (P Cost_of_solar)))
                     (Add (C 0) (Mul (V (Load_shed 0 0)) (C 2000))))),
         (1, Ge (V (Excess_cost 1))
                (Add (Add (Mul (V Wind_capacity) (P Cost_of_wind))
                          (Mul (V Solar_capacity) (P Cost_of_solar)))
                     (Add (C 0) (Mul (V (Load_shed 1 0)) (C 2000)))))],
      cvar_constraint = [(0, Le (Sub (V (Excess_cost 0)) (V T_cvar)) (C 0)),
                         (1, Le (Sub (V (Excess_cost 1)) (V T_cvar)) (C 0))],
      obj = Add (Div (Add (Add (C 0) (V (Excess_cost 0))) (V (Excess_cost 1))) (C 2))
                (Mul (C (3 / 10)) (V (Excess_cost 1))),
      obj_sense = minimize,
      var_value = (\<lambda>v. None) \<rparr>"

definition point3 :: "var \<Rightarrow> real" where
  "point3 v =
     (case v of
        Wind_capacity \<Rightarrow> 20
      | Solar_capacity \<Rightarrow> 0
      | Gen_wind s t \<Rightarrow> (if s = 0 then 10 else 20)
      | Gen_solar s t \<Rightarrow> 0
      | Load_shed s t \<Rightarrow> 0
      | Excess_cost s \<Rightarrow> 20000
      | T_cvar \<Rightarrow> 20000)"

definition costs_first_high :: "var \<Rightarrow> real" where
  "costs_first_high v = (case v of Excess_cost s \<Rightarrow> (if s = 0 then 10 else 0) | _ \<Rightarrow> 0)"

definition costs_last_high :: "var \<Rightarrow> real" where
  "costs_last_high v = (case v of Excess_cost s \<Rightarrow> (if s = 1 then 10 else 0) | _ \<Rightarrow> 0)"

text \<open>A solver outcome with status \<open>infeasible\<close>, and the model \<open>model3\<close> with values loaded.\<close>

definition results_infeasible :: solver_results where
  "results_infeasible = \<lparr> termination_condition = infeasible \<rparr>"

definition solved3 :: model where
  "solved3 = model3\<lparr> var_value := (\<lambda>v. Some (point3 v)) \<rparr>"

definition solver_infeasible :: solver where
  "solver_infeasible m = Inr (m, results_infeasible)"

definition world0 :: world where
  "world0 = \<lparr> solver_calls = 0, stdout = [] \<rparr>"

section \<open>Properties\<close>

subsection \<open>Scenario construction\<close>

lemma map_result_total:
  "(\<And>x. x \<in> set xs \<Longrightarrow> f x = Inr (g x)) \<Longrightarrow> map_result f xs = Inr (map g xs)"
  by (induction xs) auto

lemma slice_bound_nat: "slice_bound n (int j) = min n j"
  by (simp add: slice_bound_def)

lemma py_slice_block:
  assumes "k * T + T \<le> length xs"
  shows "py_slice (int k * int T) ((int k + 1) * int T) xs = take T (drop (k * T) xs)"
proof -
  have e1: "int k * int T = int (k * T)" by simp
  have e2: "(int k + 1) * int T = int (k * T + T)" by (simp add: algebra_simps)
  have m1: "min (length xs) (k * T) = k * T" using assms by simp
  have m2: "min (length xs) (k * T + T) = k * T + T" using assms by simp
  show ?thesis
    unfolding py_slice_def Let_def e1 e2 slice_bound_nat m1 m2 by simp
qed

lemma block_bound:
  assumes "s < n"
  shows "s * (L div n) + L div n \<le> (L::nat)"
proof -
  have "s * (L div n) + L div n = (s + 1) * (L div n)" by simp
  also have "\<dots> \<le> n * (L div n)" using assms by (intro mult_le_mono1) simp
  also have "\<dots> \<le> L" by (rule times_div_less_eq_dividend)
  finally show ?thesis .
qed

lemma demand_scenarios_blocks:
  assumes N: "1 \<le> N" and d: "demand_col df = Some d" and len: "length d = nrows df"
  shows "demand_scenarios df N =
           Inr (map (\<lambda>s. take (nrows df div nat N) (drop (s * (nrows df div nat N)) d)) [0 ..< nat N])"
proof -
  let ?T = "nrows df div nat N"
  have cs: "int (nrows df) div N = int ?T"
    using N by (simp add: zdiv_int)
  have "map_result (\<lambda>i. iloc_demand_values df (int i * int ?T) ((int i + 1) * int ?T)) [0 ..< nat N]
        = Inr (map (\<lambda>s. take ?T (drop (s * ?T) d)) [0 ..< nat N])"
  proof (rule map_result_total)
    fix x assume "x \<in> set [0 ..< nat N]"
    then have "x < nat N" by simp
    then have "x * ?T + ?T \<le> length d" unfolding len by (rule block_bound)
    from py_slice_block[OF this]
    show "iloc_demand_values df (int x * int ?T) ((int x + 1) * int ?T)
            = Inr (take ?T (drop (x * ?T) d))"
      by (simp add: iloc_demand_values_def d)
  qed
  then show ?thesis
    using N by (simp add: demand_scenarios_def chunk_size_of_def cs)
qed

lemma concat_blocks:
  "n * T \<le> length d \<Longrightarrow> concat (map (\<lambda>s. take T (drop (s * T) d)) [0 ..< n]) = take (n * T) d"
proof (induction n)
  case 0 then show ?case by simp
next
  case (Suc n)
  then have "concat (map (\<lambda>s. take T (drop (s * T) d)) [0 ..< n]) = take (n * T) d" by simp
  moreover have "take (n * T + T) d = take (n * T) d @ take T (drop (n * T) d)"
    by (rule take_add)
  ultimately show ?case
    by (simp add: add.commute)
qed

text \<open>
  C2. For a scenario count \<open>N \<ge> 1\<close> and a demand series \<open>d\<close> of length \<open>L\<close> with
  \<open>T = L div N \<ge> 1\<close>, the scenario loop returns exactly \<open>N\<close> scenarios; scenario \<open>s\<close> has
  length \<open>T\<close> and its entry \<open>t\<close> is the series element at index \<open>s * T + t\<close>; together the
  scenarios are the first \<open>N * T \<le> L\<close> elements, and the remaining \<open>L mod N\<close> are dropped.
\<close>

theorem scenario_builder_blocks:
  assumes "1 \<le> N" and "demand_col df = Some d" and "length d = nrows df"
    and "1 \<le> int (nrows df) div N"
  shows "\<exists>ds. demand_scenarios df N = Inr ds
           \<and> length ds = nat N
           \<and> (\<forall>s < nat N.
                 length (ds ! s) = nrows df div nat N
               \<and> (\<forall>t < nrows df div nat N. ds ! s ! t = d ! (s * (nrows df div nat N) + t)))
           \<and> nat N * (nrows df div nat N) \<le> nrows df
           \<and> concat ds = take (nat N * (nrows df div nat N)) d
           \<and> nrows df - nat N * (nrows df div nat N) = nrows df mod nat N"
proof -
  let ?T = "nrows df div nat N"
  let ?ds = "map (\<lambda>s. take ?T (drop (s * ?T) d)) [0 ..< nat N]"
  have ds: "demand_scenarios df N = Inr ?ds"
    using assms(1-3) by (rule demand_scenarios_blocks)
  have used: "nat N * ?T \<le> nrows df" by simp
  have each: "length (?ds ! s) = ?T \<and> (\<forall>t < ?T. ?ds ! s ! t = d ! (s * ?T + t))"
    if "s < nat N" for s
  proof -
    have b: "s * ?T + ?T \<le> length d" unfolding assms(3) using that by (rule block_bound)
    have nth: "?ds ! s = take ?T (drop (s * ?T) d)" using that by simp
    have "length (take ?T (drop (s * ?T) d)) = ?T" using b by simp
    moreover have "take ?T (drop (s * ?T) d) ! t = d ! (s * ?T + t)" if "t < ?T" for t
      using that b by simp
    ultimately show ?thesis unfolding nth by blast
  qed
  have cc: "concat ?ds = take (nat N * ?T) d"
    by (rule concat_blocks) (simp add: assms(3))
  have rest: "nrows df - nat N * ?T = nrows df mod nat N"
    by (simp add: minus_mult_div_eq_mod)
  have len: "length ?ds = nat N" by simp
  from ds len each used cc rest show ?thesis by blast
qed

text \<open>The instance \<open>L = 11\<close>, \<open>N = 5\<close>: five scenarios of two elements, one element dropped.\<close>

theorem scenario_builder_blocks_witness:
  "(1::int) \<le> 5
   \<and> demand_col frame11 = Some [1, 2, 3, 4, 5, 6, 7, 8, 9, 10, 11]
   \<and> length [1, 2, 3, 4, 5, 6, 7, 8, 9, 10, 11 :: real] = nrows frame11
   \<and> 1 \<le> int (nrows frame11) div 5
   \<and> demand_scenarios frame11 5 = Inr [[1, 2], [3, 4], [5, 6], [7, 8], [9, 10]]
   \<and> (\<exists>ds. demand_scenarios frame11 5 = Inr ds
           \<and> length ds = nat 5
           \<and> (\<forall>s < nat 5.
                 length (ds ! s) = nrows frame11 div nat 5
               \<and> (\<forall>t < nrows frame11 div nat 5.
                     ds ! s ! t
                       = [1, 2, 3, 4, 5, 6, 7, 8, 9, 10, 11] ! (s * (nrows frame11 div nat 5) + t)))
           \<and> nat 5 * (nrows frame11 div nat 5) \<le> nrows frame11
           \<and> concat ds = take (nat 5 * (nrows frame11 div nat 5)) [1, 2, 3, 4, 5, 6, 7, 8, 9, 10, 11]
           \<and> nrows frame11 - nat 5 * (nrows frame11 div nat 5) = nrows frame11 mod nat 5)"
proof -
  have h1: "(1::int) \<le> 5" by simp
  have h2: "demand_col frame11 = Some [1, 2, 3, 4, 5, 6, 7, 8, 9, 10, 11]"
    by (simp add: frame11_def)
  have h3: "length [1, 2, 3, 4, 5, 6, 7, 8, 9, 10, 11 :: real] = nrows frame11"
    by (simp add: frame11_def)
  have h4: "1 \<le> int (nrows frame11) div 5" by (simp add: frame11_def)
  have ev: "demand_scenarios frame11 5 = Inr [[1, 2], [3, 4], [5, 6], [7, 8], [9, 10]]"
    by (simp add: demand_scenarios_def chunk_size_of_def frame11_def iloc_demand_values_def
        py_slice_def slice_bound_def upt_rec)
  from h1 h2 h3 h4 ev scenario_builder_blocks[OF h1 h2 h3 h4] show ?thesis by blast
qed

subsection \<open>Structure of a built model\<close>

lemma RangeSet_Inr: "RangeSet 0 (n - 1) = Inr xs \<Longrightarrow> 0 \<le> n \<and> xs = [0 .. n - 1]"
  by (auto simp: RangeSet_def split: if_splits)

lemma RangeSet_nonneg: "0 \<le> n \<Longrightarrow> RangeSet 0 (n - 1) = Inr [0 .. n - 1]"
  by (auto simp: RangeSet_def)

lemma RangeSet_neg: "n < 0 \<Longrightarrow> RangeSet 0 (n - 1) = Inl ValueError"
  by (auto simp: RangeSet_def)

lemma max_from_member: "max_from gt cur xs = Inr y \<Longrightarrow> y \<in> set (cur # xs)"
  by (induction xs arbitrary: cur) (auto split: sum.splits if_splits)

lemma builtin_max_member: "builtin_max gt xs = Inr y \<Longrightarrow> y \<in> set xs"
  by (cases xs) (auto dest: max_from_member)

lemma max_cost_Inr:
  assumes "max_cost gt N = Inr y"
  shows "\<exists>k. 0 \<le> k \<and> k < N \<and> y = V (Excess_cost k)"
proof -
  from assms have "y \<in> set (map (\<lambda>s. V (Excess_cost (int s))) [0 ..< nat N])"
    unfolding max_cost_def by (rule builtin_max_member)
  then obtain s where "s < nat N" "y = V (Excess_cost (int s))" by auto
  then show ?thesis by (intro exI[of _ "int s"]) auto
qed

lemma formulate_Inr:
  assumes "formulate gt N T ds = Inr m"
  shows "1 \<le> N" and "0 \<le> T"
    and "SCENARIOS m = [0 .. N - 1]" and "TIME m = [0 .. T - 1]"
    and "demand_param ds [0 .. N - 1] [0 .. T - 1] = Inr (demand m)"
    and "objective_rule gt [0 .. N - 1] N = Inr (obj m)"
    and "cost_of_wind m = 1000" and "cost_of_solar m = 800"
    and "wind_capacity m = NonNegativeReals" and "solar_capacity m = NonNegativeReals"
    and "t_cvar m = NonNegativeReals"
    and "gen_wind m = indexed (List.product [0 .. N - 1] [0 .. T - 1]) (\<lambda>i. NonNegativeReals)"
    and "gen_solar m = indexed (List.product [0 .. N - 1] [0 .. T - 1]) (\<lambda>i. NonNegativeReals)"
    and "load_shed m = indexed (List.product [0 .. N - 1] [0 .. T - 1]) (\<lambda>i. NonNegativeReals)"
    and "excess_cost m = indexed [0 .. N - 1] (\<lambda>i. NonNegativeReals)"
    and "wind_gen_limit m =
           indexed (List.product [0 .. N - 1] [0 .. T - 1]) (\<lambda>(s, t). wind_gen_limit_rule s t)"
    and "solar_gen_limit m =
           indexed (List.product [0 .. N - 1] [0 .. T - 1]) (\<lambda>(s, t). solar_gen_limit_rule s t)"
    and "demand_constraint m =
           indexed (List.product [0 .. N - 1] [0 .. T - 1]) (\<lambda>(s, t). demand_rule s t)"
    and "excess_cost_constraint m = indexed [0 .. N - 1] (scenario_cost_rule [0 .. T - 1])"
    and "cvar_constraint m = indexed [0 .. N - 1] cvar_constraint_rule"
    and "obj_sense m = minimize"
proof -
  from assms obtain S TT dem ob where
    S: "RangeSet 0 (N - 1) = Inr S" and TT: "RangeSet 0 (T - 1) = Inr TT"
    and dem: "demand_param ds S TT = Inr dem" and ob: "objective_rule gt S N = Inr ob"
    and m: "m = \<lparr> SCENARIOS = S, TIME = TT, cost_of_wind = 1000, cost_of_solar = 800,
                demand = dem, wind_capacity = NonNegativeReals,
                solar_capacity = NonNegativeReals,
                gen_wind = indexed (List.product S TT) (\<lambda>i. NonNegativeReals),
                gen_solar = indexed (List.product S TT) (\<lambda>i. NonNegativeReals),
                load_shed = indexed (List.product S TT) (\<lambda>i. NonNegativeReals),
                excess_cost = indexed S (\<lambda>i. NonNegativeReals),
                t_cvar = NonNegativeReals,
                wind_gen_limit = indexed (List.product S TT) (\<lambda>(s, t). wind_gen_limit_rule s t),
                solar_gen_limit = indexed (List.product S TT) (\<lambda>(s, t). solar_gen_limit_rule s t),
                demand_constraint = indexed (List.product S TT) (\<lambda>(s, t). demand_rule s t),
                excess_cost_constraint = indexed S (scenario_cost_rule TT),
                cvar_constraint = indexed S cvar_constraint_rule,
                obj = ob, obj_sense = minimize, var_value = (\<lambda>v. None) \<rparr>"
    unfolding formulate_def by (auto split: sum.splits)
  from RangeSet_Inr[OF S] have S': "S = [0 .. N - 1]" and N0: "0 \<le> N" by auto
  from RangeSet_Inr[OF TT] have T': "TT = [0 .. T - 1]" and T0: "0 \<le> T" by auto
  from ob obtain y where "max_cost gt N = Inr y"
    unfolding objective_rule_def by (auto split: sum.splits)
  from max_cost_Inr[OF this] show "1 \<le> N" by auto
  show "0 \<le> T" by (rule T0)
  show "SCENARIOS m = [0 .. N - 1]" by (simp add: m S')
  show "TIME m = [0 .. T - 1]" by (simp add: m T')
  show "demand_param ds [0 .. N - 1] [0 .. T - 1] = Inr (demand m)" using dem by (simp add: m S' T')
  show "objective_rule gt [0 .. N - 1] N = Inr (obj m)" using ob by (simp add: m S')
  show "cost_of_wind m = 1000" "cost_of_solar m = 800" by (simp_all add: m)
  show "wind_capacity m = NonNegativeReals" "solar_capacity m = NonNegativeReals"
    "t_cvar m = NonNegativeReals" "obj_sense m = minimize" by (simp_all add: m)
  show "gen_wind m = indexed (List.product [0 .. N - 1] [0 .. T - 1]) (\<lambda>i. NonNegativeReals)"
    "gen_solar m = indexed (List.product [0 .. N - 1] [0 .. T - 1]) (\<lambda>i. NonNegativeReals)"
    "load_shed m = indexed (List.product [0 .. N - 1] [0 .. T - 1]) (\<lambda>i. NonNegativeReals)"
    "excess_cost m = indexed [0 .. N - 1] (\<lambda>i. NonNegativeReals)"
    by (simp_all add: m S' T')
  show "wind_gen_limit m =
           indexed (List.product [0 .. N - 1] [0 .. T - 1]) (\<lambda>(s, t). wind_gen_limit_rule s t)"
    "solar_gen_limit m =
           indexed (List.product [0 .. N - 1] [0 .. T - 1]) (\<lambda>(s, t). solar_gen_limit_rule s t)"
    "demand_constraint m =
           indexed (List.product [0 .. N - 1] [0 .. T - 1]) (\<lambda>(s, t). demand_rule s t)"
    "excess_cost_constraint m = indexed [0 .. N - 1] (scenario_cost_rule [0 .. T - 1])"
    "cvar_constraint m = indexed [0 .. N - 1] cvar_constraint_rule"
    by (simp_all add: m S' T')
qed

lemma build_Inr:
  assumes "build_two_stage_model gt df N a = Inr m"
  shows "\<exists>ds. demand_scenarios df N = Inr ds \<and> formulate gt N (int (nrows df) div N) ds = Inr m"
  using assms
  by (auto simp: build_two_stage_model_def chunk_size_of_def split: sum.splits if_splits)

lemma map_of_indexed: "map_of (indexed idx f) i = (if i \<in> set idx then Some (f i) else None)"
  by (induction idx) (auto simp: indexed_def)

lemma list_all_indexed: "list_all Q (indexed idx f) \<longleftrightarrow> (\<forall>i \<in> set idx. Q (i, f i))"
  by (simp add: indexed_def list_all_iff)

lemma in_index_pairs:
  "(s, t) \<in> set (List.product [0 .. N - 1] [0 .. T - 1]) \<longleftrightarrow> 0 \<le> s \<and> s < N \<and> 0 \<le> t \<and> t < T"
  by auto

lemma in_index: "s \<in> set [0 .. N - 1] \<longleftrightarrow> 0 \<le> s \<and> s < N"
  by auto

lemma eval_foldl_Add:
  "eval pv x (foldl Add acc es) = eval pv x acc + (\<Sum>e \<leftarrow> es. eval pv x e)"
  by (induction es arbitrary: acc) auto

lemma eval_builtin_sum: "eval pv x (builtin_sum es) = (\<Sum>e \<leftarrow> es. eval pv x e)"
  by (simp add: builtin_sum_def eval_foldl_Add)

lemma sum_list_upto: "(\<Sum>t \<leftarrow> [a .. b]. f t) = (\<Sum>t = a .. b. f t)"
  by (simp add: sum_list_distinct_conv_sum_set)

lemma eval_time_cost:
  "eval pv x (time_cost [0 .. T - 1] s) = (\<Sum>t = 0 .. T - 1. x (Load_shed s t) * penalty_of_load_shed)"
  by (simp add: time_cost_def eval_builtin_sum comp_def sum_list_upto)

lemma feasible_constraints:
  assumes "build_two_stage_model gt df N a = Inr m" and "feasible_point m x"
    and "0 \<le> s" "s < N"
  shows "0 \<le> t \<Longrightarrow> t < int (nrows df) div N \<Longrightarrow> holds (param_value m) x (wind_gen_limit_rule s t)"
    and "0 \<le> t \<Longrightarrow> t < int (nrows df) div N \<Longrightarrow> holds (param_value m) x (solar_gen_limit_rule s t)"
    and "0 \<le> t \<Longrightarrow> t < int (nrows df) div N \<Longrightarrow> holds (param_value m) x (demand_rule s t)"
    and "holds (param_value m) x (scenario_cost_rule [0 .. int (nrows df) div N - 1] s)"
    and "holds (param_value m) x (cvar_constraint_rule s)"
    and "0 \<le> x (Excess_cost s)" and "0 \<le> x T_cvar"
proof -
  let ?T = "int (nrows df) div N"
  from build_Inr[OF assms(1)] obtain ds where f: "formulate gt N ?T ds = Inr m" by blast
  note F = formulate_Inr[OF f]
  from assms(2) have c: "constraints_ok m x" and d: "domains_ok m x"
    by (simp_all add: feasible_point_def)
  have s: "s \<in> set [0 .. N - 1]" using assms(3,4) by simp
  { assume "0 \<le> t" "t < ?T"
    then have st: "(s, t) \<in> set (List.product [0 .. N - 1] [0 .. ?T - 1])"
      using assms(3,4) by simp
    from c st show "holds (param_value m) x (wind_gen_limit_rule s t)"
      unfolding constraints_ok_def F list_all_indexed by fastforce
    from c st show "holds (param_value m) x (solar_gen_limit_rule s t)"
      unfolding constraints_ok_def F list_all_indexed by fastforce
    from c st show "holds (param_value m) x (demand_rule s t)"
      unfolding constraints_ok_def F list_all_indexed by fastforce
  }
  from c s show "holds (param_value m) x (scenario_cost_rule [0 .. ?T - 1] s)"
    unfolding constraints_ok_def F list_all_indexed by fastforce
  from c s show "holds (param_value m) x (cvar_constraint_rule s)"
    unfolding constraints_ok_def F list_all_indexed by fastforce
  from d s have "in_domain NonNegativeReals (x (Excess_cost s))"
    unfolding domains_ok_def F list_all_indexed by fastforce
  then show "0 \<le> x (Excess_cost s)" by simp
  from d show "0 \<le> x T_cvar" unfolding domains_ok_def F by simp
qed

lemma upto_0_1: "[0 .. 1::int] = [0, 1]" and upto_0_0: "[0 .. 0::int] = [0]"
  by (simp_all add: upto.simps)

lemma upt_2: "[0 ..< 2] = [0, Suc 0]"
  by (simp add: upt_rec)

lemma build_frame3: "build_two_stage_model gt_truthy frame3 2 a = Inr model3"
  by (simp add: build_two_stage_model_def chunk_size_of_def demand_scenarios_def frame3_def
      iloc_demand_values_def py_slice_def slice_bound_def formulate_def RangeSet_def
      demand_param_def demand_init_def py_index_def indexed_def objective_rule_def max_cost_def
      avg_cost_def builtin_sum_def gt_truthy_def model3_def upto_0_1 upto_0_0 upt_2
      wind_gen_limit_rule_def solar_gen_limit_rule_def demand_rule_def scenario_cost_rule_def
      cvar_constraint_rule_def invest_cost_def time_cost_def penalty_of_load_shed_def
      lambda_risk_def)

lemma feasible_point3: "feasible_point model3 point3"
  by (simp add: feasible_point_def domains_ok_def constraints_ok_def model3_def point3_def
      param_value_def)

subsection \<open>Constraints\<close>

text \<open>
  C3. In every built model, for every scenario \<open>s\<close> in \<open>[0, N)\<close> and time index \<open>t\<close> in
  \<open>[0, T)\<close>, the demand constraint at \<open>(s, t)\<close> is
  \<open>demand[s,t] \<le> gen_wind[s,t] + gen_solar[s,t] + load_shed[s,t]\<close>, so every feasible
  point serves the demand up to shedding.
\<close>

theorem demand_balance_constraint:
  assumes "build_two_stage_model gt df N a = Inr m"
    and "0 \<le> s" and "s < N" and "0 \<le> t" and "t < int (nrows df) div N"
  shows "map_of (demand_constraint m) (s, t)
           = Some (Le (P (Demand s t))
                      (Add (Add (V (Gen_wind s t)) (V (Gen_solar s t))) (V (Load_shed s t))))
         \<and> (\<forall>x. feasible_point m x \<longrightarrow>
                param_value m (Demand s t)
                  \<le> x (Gen_wind s t) + x (Gen_solar s t) + x (Load_shed s t))"
proof -
  let ?T = "int (nrows df) div N"
  from build_Inr[OF assms(1)] obtain ds where f: "formulate gt N ?T ds = Inr m" by blast
  have st: "(s, t) \<in> set (List.product [0 .. N - 1] [0 .. ?T - 1])"
    using assms(2-5) by simp
  have "map_of (demand_constraint m) (s, t) = Some (demand_rule s t)"
    unfolding formulate_Inr(18)[OF f] map_of_indexed using st by simp
  moreover have "param_value m (Demand s t)
                  \<le> x (Gen_wind s t) + x (Gen_solar s t) + x (Load_shed s t)"
    if "feasible_point m x" for x
    using feasible_constraints(3)[OF assms(1) that assms(2-5)] by (simp add: demand_rule_def)
  ultimately show ?thesis by (simp add: demand_rule_def)
qed

text \<open>Scenario 1, time 0 of the model built from \<open>frame3\<close>, at the feasible point \<open>point3\<close>.\<close>

theorem demand_balance_constraint_witness:
  "build_two_stage_model gt_truthy frame3 2 (95 / 100) = Inr model3
   \<and> (0::int) \<le> 1 \<and> (1::int) < 2 \<and> (0::int) \<le> 0 \<and> 0 < int (nrows frame3) div 2
   \<and> map_of (demand_constraint model3) (1, 0)
        = Some (Le (P (Demand 1 0))
                   (Add (Add (V (Gen_wind 1 0)) (V (Gen_solar 1 0))) (V (Load_shed 1 0))))
   \<and> feasible_point model3 point3
   \<and> param_value model3 (Demand 1 0) = 20
   \<and> param_value model3 (Demand 1 0)
        \<le> point3 (Gen_wind 1 0) + point3 (Gen_solar 1 0) + point3 (Load_shed 1 0)"
proof -
  have h: "(0::int) \<le> 1" "(1::int) < 2" "(0::int) \<le> 0" "0 < int (nrows frame3) div 2"
    by (simp_all add: frame3_def)
  have v: "param_value model3 (Demand 1 0) = 20" by (simp add: param_value_def model3_def)
  from demand_balance_constraint[OF build_frame3 h] feasible_point3 build_frame3 h v
  show ?thesis by blast
qed

text \<open>
  C4. In every built model, for every scenario \<open>s\<close> and time index \<open>t\<close>, the coupling
  constraints at \<open>(s, t)\<close> are \<open>gen_wind[s,t] \<le> wind_capacity\<close> and
  \<open>gen_solar[s,t] \<le> solar_capacity\<close>, so at a feasible point generation never exceeds the
  first-stage capacity.
\<close>

theorem generation_capacity_constraints:
  assumes "build_two_stage_model gt df N a = Inr m"
    and "0 \<le> s" and "s < N" and "0 \<le> t" and "t < int (nrows df) div N"
  shows "map_of (wind_gen_limit m) (s, t) = Some (Le (V (Gen_wind s t)) (V Wind_capacity))
         \<and> map_of (solar_gen_limit m) (s, t) = Some (Le (V (Gen_solar s t)) (V Solar_capacity))
         \<and> (\<forall>x. feasible_point m x \<longrightarrow>
                x (Gen_wind s t) \<le> x Wind_capacity \<and> x (Gen_solar s t) \<le> x Solar_capacity)"
proof -
  let ?T = "int (nrows df) div N"
  from build_Inr[OF assms(1)] obtain ds where f: "formulate gt N ?T ds = Inr m" by blast
  have st: "(s, t) \<in> set (List.product [0 .. N - 1] [0 .. ?T - 1])"
    using assms(2-5) by simp
  have w: "map_of (wind_gen_limit m) (s, t) = Some (wind_gen_limit_rule s t)"
    unfolding formulate_Inr(16)[OF f] map_of_indexed using st by simp
  have so: "map_of (solar_gen_limit m) (s, t) = Some (solar_gen_limit_rule s t)"
    unfolding formulate_Inr(17)[OF f] map_of_indexed using st by simp
  have "x (Gen_wind s t) \<le> x Wind_capacity \<and> x (Gen_solar s t) \<le> x Solar_capacity"
    if "feasible_point m x" for x
    using feasible_constraints(1,2)[OF assms(1) that assms(2-5)]
    by (simp add: wind_gen_limit_rule_def solar_gen_limit_rule_def)
  with w so show ?thesis
    by (simp add: wind_gen_limit_rule_def solar_gen_limit_rule_def)
qed

text \<open>Scenario 1, time 0 of the model built from \<open>frame3\<close>, at the feasible point \<open>point3\<close>.\<close>

theorem generation_capacity_constraints_witness:
  "build_two_stage_model gt_truthy frame3 2 (95 / 100) = Inr model3
   \<and> (0::int) \<le> 1 \<and> (1::int) < 2 \<and> (0::int) \<le> 0 \<and> 0 < int (nrows frame3) div 2
   \<and> map_of (wind_gen_limit model3) (1, 0) = Some (Le (V (Gen_wind 1 0)) (V Wind_capacity))
   \<and> map_of (solar_gen_limit model3) (1, 0) = Some (Le (V (Gen_solar 1 0)) (V Solar_capacity))
   \<and> feasible_point model3 point3
   \<and> point3 (Gen_wind 1 0) \<le> point3 Wind_capacity
   \<and> point3 (Gen_solar 1 0) \<le> point3 Solar_capacity"
proof -
  have h: "(0::int) \<le> 1" "(1::int) < 2" "(0::int) \<le> 0" "0 < int (nrows frame3) div 2"
    by (simp_all add: frame3_def)
  from generation_capacity_constraints[OF build_frame3 h] feasible_point3 build_frame3 h
  show ?thesis by blast
qed

text \<open>
  C5. In every built model, for every scenario \<open>s\<close>, the cost constraint is
  \<open>excess_cost[s] \<ge> wind_capacity * cost_of_wind + solar_capacity * cost_of_solar +
  \<Sum>\<^sub>t load_shed[s,t] * penalty_of_load_shed\<close>, the bound constraint is
  \<open>excess_cost[s] - t_cvar \<le> 0\<close>, that is \<open>excess_cost[s] \<le> t_cvar\<close>, and both
  \<open>excess_cost[s]\<close> and \<open>t_cvar\<close> are declared nonnegative.
\<close>

theorem cost_accounting_and_cvar_bound:
  assumes "build_two_stage_model gt df N a = Inr m" and "0 \<le> s" and "s < N"
  shows "map_of (excess_cost_constraint m) s
           = Some (Ge (V (Excess_cost s))
                      (Add (Add (Mul (V Wind_capacity) (P Cost_of_wind))
                                (Mul (V Solar_capacity) (P Cost_of_solar)))
                           (time_cost (TIME m) s)))
         \<and> map_of (cvar_constraint m) s = Some (Le (Sub (V (Excess_cost s)) (V T_cvar)) (C 0))
         \<and> map_of (excess_cost m) s = Some NonNegativeReals
         \<and> t_cvar m = NonNegativeReals
         \<and> TIME m = [0 .. int (nrows df) div N - 1]
         \<and> (\<forall>x. feasible_point m x \<longrightarrow>
                x (Excess_cost s)
                  \<ge> x Wind_capacity * cost_of_wind m + x Solar_capacity * cost_of_solar m
                     + (\<Sum>t = 0 .. int (nrows df) div N - 1. x (Load_shed s t) * penalty_of_load_shed)
              \<and> x (Excess_cost s) \<le> x T_cvar
              \<and> 0 \<le> x (Excess_cost s) \<and> 0 \<le> x T_cvar)"
proof -
  let ?T = "int (nrows df) div N"
  from build_Inr[OF assms(1)] obtain ds where f: "formulate gt N ?T ds = Inr m" by blast
  note F = formulate_Inr[OF f]
  have s: "s \<in> set [0 .. N - 1]" using assms(2,3) by simp
  have c1: "map_of (excess_cost_constraint m) s = Some (scenario_cost_rule (TIME m) s)"
    unfolding F(19) F(4) map_of_indexed using s by simp
  have c2: "map_of (cvar_constraint m) s = Some (cvar_constraint_rule s)"
    unfolding F(20) map_of_indexed using s by simp
  have c3: "map_of (excess_cost m) s = Some NonNegativeReals"
    unfolding F(15) map_of_indexed using s by simp
  have sem: "x (Excess_cost s)
                  \<ge> x Wind_capacity * cost_of_wind m + x Solar_capacity * cost_of_solar m
                     + (\<Sum>t = 0 .. ?T - 1. x (Load_shed s t) * penalty_of_load_shed)
              \<and> x (Excess_cost s) \<le> x T_cvar
              \<and> 0 \<le> x (Excess_cost s) \<and> 0 \<le> x T_cvar"
    if "feasible_point m x" for x
    using feasible_constraints(4-7)[OF assms(1) that assms(2,3)]
    by (simp add: scenario_cost_rule_def cvar_constraint_rule_def invest_cost_def
        eval_time_cost param_value_def)
  from c1 c2 c3 F(11) F(4) sem show ?thesis
    by (simp add: scenario_cost_rule_def cvar_constraint_rule_def invest_cost_def)
qed

text \<open>Scenario 1 of the model built from \<open>frame3\<close>, at the feasible point \<open>point3\<close>.\<close>

theorem cost_accounting_and_cvar_bound_witness:
  "build_two_stage_model gt_truthy frame3 2 (95 / 100) = Inr model3
   \<and> (0::int) \<le> 1 \<and> (1::int) < 2
   \<and> map_of (excess_cost_constraint model3) 1
        = Some (Ge (V (Excess_cost 1))
                   (Add (Add (Mul (V Wind_capacity) (P Cost_of_wind))
                             (Mul (V Solar_capacity) (P Cost_of_solar)))
                        (time_cost (TIME model3) 1)))
   \<and> map_of (cvar_constraint model3) 1 = Some (Le (Sub (V (Excess_cost 1)) (V T_cvar)) (C 0))
   \<and> feasible_point model3 point3
   \<and> point3 (Excess_cost 1)
        \<ge> point3 Wind_capacity * cost_of_wind model3 + point3 Solar_capacity * cost_of_solar model3
           + (\<Sum>t = 0 .. int (nrows frame3) div 2 - 1. point3 (Load_shed 1 t) * penalty_of_load_shed)
   \<and> point3 (Excess_cost 1) \<le> point3 T_cvar
   \<and> 0 \<le> point3 (Excess_cost 1) \<and> 0 \<le> point3 T_cvar"
proof -
  have h: "(0::int) \<le> 1" "(1::int) < 2" by simp_all
  from cost_accounting_and_cvar_bound[OF build_frame3 h] feasible_point3 build_frame3 h
  show ?thesis by blast
qed

subsection \<open>The objective\<close>

lemma objective_structure:
  assumes "build_two_stage_model gt df N a = Inr m"
  shows "\<exists>k. 0 \<le> k \<and> k < N
           \<and> obj m = Add (avg_cost [0 .. N - 1] N) (Mul (C lambda_risk) (V (Excess_cost k)))"
proof -
  from build_Inr[OF assms] obtain ds where f: "formulate gt N (int (nrows df) div N) ds = Inr m"
    by blast
  from formulate_Inr(6)[OF f] obtain y where y: "max_cost gt N = Inr y"
    and ob: "obj m = Add (avg_cost [0 .. N - 1] N) (Mul (C lambda_risk) y)"
    unfolding objective_rule_def by (auto split: sum.splits)
  from max_cost_Inr[OF y] ob show ?thesis by auto
qed

lemma objective_single_scenario:
  assumes "build_two_stage_model gt df 1 a = Inr m"
  shows "eval (param_value m) x (obj m) = objective_spec 1 x"
proof -
  from objective_structure[OF assms] have
    "obj m = Add (avg_cost [0 .. 0] 1) (Mul (C lambda_risk) (V (Excess_cost 0)))"
    by auto
  then show ?thesis
    by (simp add: avg_cost_def builtin_sum_def objective_spec_def upto_0_0)
qed

text \<open>
  C1 states that the objective is the mean of the scenario costs plus \<open>lambda_risk\<close> times
  their maximum. For one scenario it is (\<open>objective_single_scenario\<close>). For more, the
  built-in \<^verbatim>\<open>max\<close> returns one of the variable objects while the model is built
  (\<open>objective_structure\<close>), so the risk term is \<open>lambda_risk\<close> times the cost of one fixed
  scenario. On the three-row frame with two scenarios: when the comparison is truthy the
  term is the cost of scenario 1, and costs \<open>(10, 0)\<close> give 5 where the stated objective is
  8; when it is falsy the term is the cost of scenario 0, and costs \<open>(0, 10)\<close> give 5
  where the stated objective is 8; when it raises, no model is built.
\<close>

theorem objective_is_not_mean_plus_max:
  "built_objective gt_truthy frame3 2 (95 / 100) costs_first_high = Inr 5
   \<and> objective_spec 2 costs_first_high = 8
   \<and> built_objective gt_falsy frame3 2 (95 / 100) costs_last_high = Inr 5
   \<and> objective_spec 2 costs_last_high = 8
   \<and> built_objective gt_raises frame3 2 (95 / 100) costs_first_high = Inl PyomoException"
proof -
  have b1: "built_objective gt_truthy frame3 2 (95 / 100) costs_first_high = Inr 5"
    by (simp add: built_objective_def build_frame3 model3_def costs_first_high_def)
  have s1: "objective_spec 2 costs_first_high = 8"
    by (simp add: objective_spec_def upt_2 costs_first_high_def lambda_risk_def)
  have s2: "objective_spec 2 costs_last_high = 8"
    by (simp add: objective_spec_def upt_2 costs_last_high_def lambda_risk_def)
  have b2: "built_objective gt_falsy frame3 2 (95 / 100) costs_last_high = Inr 5"
    by (simp add: built_objective_def build_two_stage_model_def chunk_size_of_def
      demand_scenarios_def frame3_def
      iloc_demand_values_def py_slice_def slice_bound_def formulate_def RangeSet_def
      demand_param_def demand_init_def py_index_def indexed_def objective_rule_def max_cost_def
      avg_cost_def builtin_sum_def gt_falsy_def upto_0_1 upto_0_0 upt_2
      lambda_risk_def costs_last_high_def)
  have b3: "built_objective gt_raises frame3 2 (95 / 100) costs_first_high = Inl PyomoException"
    by (simp add: built_objective_def build_two_stage_model_def chunk_size_of_def
      demand_scenarios_def frame3_def
      iloc_demand_values_def py_slice_def slice_bound_def formulate_def RangeSet_def
      demand_param_def demand_init_def py_index_def indexed_def objective_rule_def max_cost_def
      gt_raises_def upto_0_1 upto_0_0 upt_2)
  from b1 s1 b2 s2 b3 show ?thesis by blast
qed

subsection \<open>Failures of construction\<close>

lemma build_zero: "build_two_stage_model gt df 0 a = Inl ZeroDivisionError"
  by (simp add: build_two_stage_model_def chunk_size_of_def)

lemma build_negative: "N < 0 \<Longrightarrow> build_two_stage_model gt df N a = Inl ValueError"
  by (simp add: build_two_stage_model_def chunk_size_of_def demand_scenarios_def
      formulate_def RangeSet_def)

lemma build_no_demand:
  assumes "1 \<le> N" and "demand_col df = None"
  shows "build_two_stage_model gt df N a = Inl KeyError"
proof -
  from assms(1) obtain k where k: "nat N = Suc k" by (cases "nat N") auto
  have "[0 ..< nat N] = 0 # [1 ..< nat N]" unfolding k by (simp add: upt_conv_Cons)
  then have "demand_scenarios df N = Inl KeyError"
    using assms by (simp add: demand_scenarios_def chunk_size_of_def iloc_demand_values_def)
  then show ?thesis
    using assms(1) by (simp add: build_two_stage_model_def chunk_size_of_def)
qed

lemma build_blocks:
  assumes "1 \<le> N" and "demand_col df = Some d" and "length d = nrows df"
  shows "build_two_stage_model gt df N a =
           formulate gt N (int (nrows df div nat N))
             (map (\<lambda>s. take (nrows df div nat N) (drop (s * (nrows df div nat N)) d)) [0 ..< nat N])"
proof -
  have cs: "int (nrows df) div N = int (nrows df div nat N)"
    using assms(1) by (simp add: zdiv_int)
  show ?thesis
    using assms(1) demand_scenarios_blocks[OF assms]
    by (simp add: build_two_stage_model_def chunk_size_of_def cs)
qed

lemma demand_init_blocks:
  assumes "0 \<le> s" "s < int n" "0 \<le> t" "t < int T" "n * T \<le> length d"
  shows "demand_init (map (\<lambda>s. take T (drop (s * T) d)) [0 ..< n]) s t
           = Inr (d ! (nat s * T + nat t))"
proof -
  have s: "nat s < n" using assms(1,2) by simp
  have "nat s * T + T = (nat s + 1) * T" by simp
  also have "\<dots> \<le> n * T" using s by (intro mult_le_mono1) simp
  finally have b: "nat s * T + T \<le> length d" using assms(5) by simp
  have t: "nat t < T" using assms(3,4) by simp
  have row: "py_index (map (\<lambda>s. take T (drop (s * T) d)) [0 ..< n]) s
               = Inr (take T (drop (nat s * T) d))"
    using assms(1,2) s by (simp add: py_index_def)
  have len: "length (take T (drop (nat s * T) d)) = T" using b by simp
  have "py_index (take T (drop (nat s * T) d)) t = Inr (take T (drop (nat s * T) d) ! nat t)"
    unfolding py_index_def len using assms(3,4) by simp
  also have "take T (drop (nat s * T) d) ! nat t = d ! (nat s * T + nat t)"
    using t b by simp
  finally show ?thesis by (simp add: demand_init_def row)
qed

lemma demand_param_blocks:
  assumes "n * T \<le> length d"
  shows "demand_param (map (\<lambda>s. take T (drop (s * T) d)) [0 ..< n])
            [0 .. int n - 1] [0 .. int T - 1]
         = Inr (map (\<lambda>(s, t). ((s, t), d ! (nat s * T + nat t)))
                  (List.product [0 .. int n - 1] [0 .. int T - 1]))"
  unfolding demand_param_def
proof (rule map_result_total)
  fix p assume p: "p \<in> set (List.product [0 .. int n - 1] [0 .. int T - 1])"
  obtain s t where st: "p = (s, t)" by (cases p)
  with p have "0 \<le> s" "s < int n" "0 \<le> t" "t < int T" by auto
  from demand_init_blocks[OF this assms]
  show "(case p of (s, t) \<Rightarrow>
            case demand_init (map (\<lambda>s. take T (drop (s * T) d)) [0 ..< n]) s t of
              Inl e \<Rightarrow> Inl e | Inr v \<Rightarrow> Inr ((s, t), v))
        = Inr (case p of (s, t) \<Rightarrow> ((s, t), d ! (nat s * T + nat t)))"
    by (simp add: st)
qed

lemma max_from_total:
  "\<forall>x y. \<not> isl (gt x y) \<Longrightarrow> \<not> isl (max_from gt cur xs)"
proof (induction xs arbitrary: cur)
  case Nil then show ?case by simp
next
  case (Cons x xs)
  from Cons.prems have "\<not> isl (gt x cur)" by blast
  then obtain b where "gt x cur = Inr b" by (cases "gt x cur") auto
  with Cons show ?case by simp
qed

lemma max_cost_total:
  assumes "1 \<le> N" and "\<forall>x y. \<not> isl (gt x y)"
  shows "\<not> isl (max_cost gt N)"
proof -
  from assms(1) obtain k where k: "nat N = Suc k" by (cases "nat N") auto
  have "[0 ..< nat N] = 0 # [1 ..< nat N]" unfolding k by (simp add: upt_conv_Cons)
  then show ?thesis
    using max_from_total[OF assms(2)] by (simp add: max_cost_def)
qed

lemma max_cost_one: "max_cost gt 1 = Inr (V (Excess_cost 0))"
  by (simp add: max_cost_def)

lemma build_succeeds:
  assumes "1 \<le> N" and "demand_col df = Some d" and "length d = nrows df"
    and "\<not> isl (max_cost gt N)"
  shows "\<exists>m. build_two_stage_model gt df N a = Inr m
             \<and> TIME m = [0 .. int (nrows df) div N - 1]"
proof -
  let ?T = "nrows df div nat N"
  have N: "int (nat N) = N" using assms(1) by simp
  have cs: "int (nrows df) div N = int ?T" using assms(1) by (simp add: zdiv_int)
  have "nat N * ?T \<le> length d" by (simp add: assms(3))
  from demand_param_blocks[OF this, unfolded N]
  have dp: "\<not> isl (demand_param (map (\<lambda>s. take ?T (drop (s * ?T) d)) [0 ..< nat N])
            [0 .. N - 1] [0 .. int ?T - 1])"
    by (simp only: sum.disc not_False_eq_True)
  have r1: "RangeSet 0 (N - 1) = Inr [0 .. N - 1]" using assms(1) by (intro RangeSet_nonneg) simp
  have r2: "RangeSet 0 (int ?T - 1) = Inr [0 .. int ?T - 1]" by (intro RangeSet_nonneg) simp
  from assms(4) have ob: "\<not> isl (objective_rule gt [0 .. N - 1] N)"
    by (cases "max_cost gt N") (auto simp: objective_rule_def)
  have "\<not> isl (build_two_stage_model gt df N a)"
    unfolding build_blocks[OF assms(1-3)] formulate_def r1 r2
    using dp ob by (auto split: sum.splits)
  then obtain m where m: "build_two_stage_model gt df N a = Inr m"
    by (cases "build_two_stage_model gt df N a") auto
  from build_Inr[OF m] obtain ds where "formulate gt N (int (nrows df) div N) ds = Inr m"
    by blast
  from formulate_Inr(4)[OF this] m show ?thesis by blast
qed

lemma build_fails_in_max:
  assumes "1 \<le> N" and "demand_col df = Some d" and "length d = nrows df"
    and "max_cost gt N = Inl e"
  shows "build_two_stage_model gt df N a = Inl e"
proof -
  let ?T = "nrows df div nat N"
  have N: "int (nat N) = N" using assms(1) by simp
  have "nat N * ?T \<le> length d" by (simp add: assms(3))
  note dp = demand_param_blocks[OF this, unfolded N]
  have r1: "RangeSet 0 (N - 1) = Inr [0 .. N - 1]" using assms(1) by (intro RangeSet_nonneg) simp
  have r2: "RangeSet 0 (int ?T - 1) = Inr [0 .. int ?T - 1]" by (intro RangeSet_nonneg) simp
  have ob: "objective_rule gt [0 .. N - 1] N = Inl e"
    by (simp add: objective_rule_def assms(4))
  show ?thesis
    using dp ob by (simp add: build_blocks[OF assms(1-3)] formulate_def r1 r2)
qed

text \<open>
  In a built model the demand parameter at \<open>(s, t)\<close> is the series element at index
  \<open>s * T + t\<close>.
\<close>

lemma demand_param_from_series:
  assumes "build_two_stage_model gt df N a = Inr m"
    and "demand_col df = Some d" and "length d = nrows df"
    and "0 \<le> s" and "s < N" and "0 \<le> t" and "t < int (nrows df) div N"
  shows "param_value m (Demand s t) = d ! (nat s * (nrows df div nat N) + nat t)"
proof -
  let ?T = "nrows df div nat N"
  let ?ds = "map (\<lambda>s. take ?T (drop (s * ?T) d)) [0 ..< nat N]"
  from assms(4,5) have N: "1 \<le> N" by simp
  then have iN: "int (nat N) = N" by simp
  have cs: "int (nrows df) div N = int ?T" using N by (simp add: zdiv_int)
  from assms(1) have f: "formulate gt N (int ?T) ?ds = Inr m"
    unfolding build_blocks[OF N assms(2,3)] .
  have "nat N * ?T \<le> length d" by (simp add: assms(3))
  from demand_param_blocks[OF this, unfolded iN] formulate_Inr(5)[OF f]
  have "demand m = indexed (List.product [0 .. N - 1] [0 .. int ?T - 1])
                     (\<lambda>(s, t). d ! (nat s * ?T + nat t))"
    by (simp add: indexed_def case_prod_beta)
  moreover have "(s, t) \<in> set (List.product [0 .. N - 1] [0 .. int ?T - 1])"
    using assms(4-7) by (simp add: cs)
  ultimately show ?thesis
    by (simp add: param_value_def map_of_indexed)
qed

text \<open>
  C6, as the code has it. Construction fails for a scenario count of zero, with
  \<^verbatim>\<open>ZeroDivisionError\<close> from the floor division, and for a negative count, with
  \<^verbatim>\<open>ValueError\<close> from the scenario index set. Nothing checks \<open>T\<close> or \<open>alpha_cvar\<close>: for
  \<open>N \<ge> 1\<close> and a well-formed frame with a demand column, construction succeeds for every
  \<open>alpha_cvar\<close> and also when \<open>T = 0\<close>, where the time index of the model is empty, as
  long as \<^verbatim>\<open>max\<close> in the objective rule does not raise. For \<open>N = 1\<close> it compares nothing,
  so construction succeeds whatever the library answers; when it does raise, construction
  fails with that exception.
\<close>

theorem construction_failures:
  "(N = 0 \<longrightarrow> build_two_stage_model gt df N a = Inl ZeroDivisionError)
   \<and> (N < 0 \<longrightarrow> build_two_stage_model gt df N a = Inl ValueError)
   \<and> (1 \<le> N \<and> wf_frame df \<and> demand_col df = Some d \<and> \<not> isl (max_cost gt N)
        \<longrightarrow> (\<exists>m. build_two_stage_model gt df N a = Inr m
                 \<and> (int (nrows df) div N = 0 \<longrightarrow> TIME m = [])))
   \<and> (N = 1 \<and> wf_frame df \<and> demand_col df = Some d
        \<longrightarrow> \<not> isl (build_two_stage_model gt df N a))
   \<and> (1 \<le> N \<and> wf_frame df \<and> demand_col df = Some d \<and> max_cost gt N = Inl e
        \<longrightarrow> build_two_stage_model gt df N a = Inl e)"
proof (intro conjI impI)
  assume "N = 0" then show "build_two_stage_model gt df N a = Inl ZeroDivisionError"
    by (simp add: build_zero)
next
  assume "N < 0" then show "build_two_stage_model gt df N a = Inl ValueError"
    by (rule build_negative)
next
  assume h: "1 \<le> N \<and> wf_frame df \<and> demand_col df = Some d \<and> \<not> isl (max_cost gt N)"
  then have len: "length d = nrows df" by (auto simp: wf_frame_def)
  from h len build_succeeds[of N df d gt a]
  obtain m where m: "build_two_stage_model gt df N a = Inr m"
    and t: "TIME m = [0 .. int (nrows df) div N - 1]" by blast
  from t have "int (nrows df) div N = 0 \<longrightarrow> TIME m = []" by simp
  with m show "\<exists>m. build_two_stage_model gt df N a = Inr m
                 \<and> (int (nrows df) div N = 0 \<longrightarrow> TIME m = [])" by blast
next
  assume h: "N = 1 \<and> wf_frame df \<and> demand_col df = Some d"
  then have len: "length d = nrows df" by (auto simp: wf_frame_def)
  have "\<not> isl (max_cost gt 1)" by (simp add: max_cost_one)
  from build_succeeds[OF _ _ len this, of a] h
  show "\<not> isl (build_two_stage_model gt df N a)" by auto
next
  assume h: "1 \<le> N \<and> wf_frame df \<and> demand_col df = Some d \<and> max_cost gt N = Inl e"
  then have len: "length d = nrows df" by (auto simp: wf_frame_def)
  from h show "build_two_stage_model gt df N a = Inl e"
    by (intro build_fails_in_max[OF _ _ len]) auto
qed

text \<open>
  All instances under the raising comparison: counts 0 and \<open>-1\<close>; one scenario on the
  frame without rows (\<open>T = 0\<close>) with \<open>alpha_cvar = 1\<close>, built with an empty time index; one
  scenario on the one-row frame; two scenarios on the one-row frame, where \<^verbatim>\<open>max\<close> raises.
\<close>

theorem construction_failures_witness:
  "build_two_stage_model gt_raises frame1 0 1 = Inl ZeroDivisionError
   \<and> build_two_stage_model gt_raises frame1 (- 1) 1 = Inl ValueError
   \<and> wf_frame frame0 \<and> demand_col frame0 = Some []
   \<and> \<not> isl (max_cost gt_raises 1)
   \<and> int (nrows frame0) div 1 = 0
   \<and> (\<exists>m. build_two_stage_model gt_raises frame0 1 1 = Inr m \<and> TIME m = [])
   \<and> wf_frame frame1 \<and> demand_col frame1 = Some [5]
   \<and> \<not> isl (build_two_stage_model gt_raises frame1 1 1)
   \<and> max_cost gt_raises 2 = Inl PyomoException
   \<and> build_two_stage_model gt_raises frame1 2 1 = Inl PyomoException"
proof -
  have h0: "wf_frame frame0" "demand_col frame0 = Some []" "\<not> isl (max_cost gt_raises 1)"
    "int (nrows frame0) div 1 = 0"
    by (simp_all add: wf_frame_def frame0_def max_cost_def)
  have h1: "wf_frame frame1" "demand_col frame1 = Some [5]"
    by (simp_all add: wf_frame_def frame1_def)
  have h2: "max_cost gt_raises 2 = Inl PyomoException"
    by (simp add: max_cost_def gt_raises_def upt_2)
  from construction_failures[of 0 gt_raises frame1 1]
  have a: "build_two_stage_model gt_raises frame1 0 1 = Inl ZeroDivisionError" by simp
  from construction_failures[of "- 1" gt_raises frame1 1]
  have b: "build_two_stage_model gt_raises frame1 (- 1) 1 = Inl ValueError" by simp
  from construction_failures[of 1 gt_raises frame0 1 "[]"] h0
  have c: "\<exists>m. build_two_stage_model gt_raises frame0 1 1 = Inr m \<and> TIME m = []" by simp
  from construction_failures[of 1 gt_raises frame1 1 "[5]"] h1
  have d: "\<not> isl (build_two_stage_model gt_raises frame1 1 1)" by simp
  from construction_failures[of 2 gt_raises frame1 1 "[5]" PyomoException] h1 h2
  have e: "build_two_stage_model gt_raises frame1 2 1 = Inl PyomoException" by simp
  from a b c d e h0 h1 h2 show ?thesis by blast
qed

text \<open>
  With \<open>alpha_cvar = 1\<close>, outside the open interval, one scenario on a one-row frame is
  built without failure.
\<close>

theorem construction_without_validation:
  "\<not> isl (build_two_stage_model gt_raises frame1 1 1)"
  by (simp add: build_two_stage_model_def chunk_size_of_def
      demand_scenarios_def frame1_def
      iloc_demand_values_def py_slice_def slice_bound_def formulate_def RangeSet_def
      demand_param_def demand_init_def py_index_def indexed_def objective_rule_def max_cost_def
      upto_0_0)

subsection \<open>What the built model depends on\<close>

text \<open>
  C9. The outcome of construction is the same for any two values of \<open>alpha_cvar\<close>, inside
  or outside \<open>(0, 1)\<close>.
\<close>

theorem alpha_cvar_ignored:
  "build_two_stage_model gt df N a1 = build_two_stage_model gt df N a2"
  by (simp add: build_two_stage_model_def)

lemma block_of_prefix:
  assumes "s * T + T \<le> k"
  shows "take T (drop (s * T) (take k d)) = take T (drop (s * T) d)"
proof -
  have "min T (k - s * T) = T" using assms by simp
  then show ?thesis by (simp add: drop_take)
qed

lemma blocks_of_prefix:
  "map (\<lambda>s. take T (drop (s * T) d)) [0 ..< n]
     = map (\<lambda>s. take T (drop (s * T) (take (n * T) d))) [0 ..< n]"
proof (rule map_cong[OF refl])
  fix s assume "s \<in> set [0 ..< n]"
  then have "s < n" by simp
  have "s * T + T = (s + 1) * T" by simp
  also have "\<dots> \<le> n * T" using \<open>s < n\<close> by (intro mult_le_mono1) simp
  finally show "take T (drop (s * T) d) = take T (drop (s * T) (take (n * T) d))"
    by (simp only: block_of_prefix)
qed

text \<open>
  C10. Two well-formed frames whose demand columns agree on the first \<open>N * (L div N)\<close>
  rows give the same outcome of construction for \<open>N\<close> scenarios: the other columns and
  the trailing rows have no influence.
\<close>

theorem depends_only_on_demand_prefix:
  assumes "wf_frame df1" and "wf_frame df2"
    and "map_option (take (nat (N * (int (nrows df1) div N)))) (demand_col df1)
           = map_option (take (nat (N * (int (nrows df2) div N)))) (demand_col df2)"
  shows "build_two_stage_model gt df1 N a = build_two_stage_model gt df2 N a"
proof -
  consider "N = 0" | "N < 0" | "1 \<le> N" by linarith
  then show ?thesis
  proof cases
    case 1 then show ?thesis by (simp add: build_zero)
  next
    case 2 then show ?thesis by (simp add: build_negative)
  next
    case 3
    let ?n = "nat N"
    let ?T1 = "nrows df1 div ?n" and ?T2 = "nrows df2 div ?n"
    have k1: "nat (N * (int (nrows df1) div N)) = ?n * ?T1"
      using 3 by (simp add: zdiv_int nat_mult_distrib nat_div_distrib)
    have k2: "nat (N * (int (nrows df2) div N)) = ?n * ?T2"
      using 3 by (simp add: zdiv_int nat_mult_distrib nat_div_distrib)
    show ?thesis
    proof (cases "demand_col df1")
      case None
      with assms(3) have "demand_col df2 = None" by simp
      with None 3 show ?thesis by (simp add: build_no_demand)
    next
      case (Some d1)
      with assms(3) obtain d2 where d2: "demand_col df2 = Some d2"
        by (cases "demand_col df2") auto
      from assms(1) Some have l1: "length d1 = nrows df1" by (simp add: wf_frame_def)
      from assms(2) d2 have l2: "length d2 = nrows df2" by (simp add: wf_frame_def)
      from assms(3) Some d2 have pre: "take (?n * ?T1) d1 = take (?n * ?T2) d2"
        by (simp add: k1 k2)
      then have "length (take (?n * ?T1) d1) = length (take (?n * ?T2) d2)" by simp
      then have "?n * ?T1 = ?n * ?T2" by (simp add: l1 l2)
      then have T: "?T1 = ?T2" using 3 by simp
      have "map (\<lambda>s. take ?T1 (drop (s * ?T1) d1)) [0 ..< ?n]
            = map (\<lambda>s. take ?T1 (drop (s * ?T1) (take (?n * ?T1) d1))) [0 ..< ?n]"
        by (rule blocks_of_prefix)
      also have "\<dots> = map (\<lambda>s. take ?T2 (drop (s * ?T2) (take (?n * ?T2) d2))) [0 ..< ?n]"
        using pre T by simp
      also have "\<dots> = map (\<lambda>s. take ?T2 (drop (s * ?T2) d2)) [0 ..< ?n]"
        by (rule blocks_of_prefix[symmetric])
      finally have "map (\<lambda>s. take ?T2 (drop (s * ?T2) d1)) [0 ..< ?n]
                     = map (\<lambda>s. take ?T2 (drop (s * ?T2) d2)) [0 ..< ?n]"
        unfolding T .
      then show ?thesis
        unfolding build_blocks[OF 3 Some l1] build_blocks[OF 3 d2 l2] T by (rule arg_cong)
    qed
  qed
qed

text \<open>
  \<open>frame3\<close> and \<open>frame3_other\<close> agree on the first two demand values and differ in the
  third, in the timestamps and in the further column.
\<close>

theorem depends_only_on_demand_prefix_witness:
  "wf_frame frame3 \<and> wf_frame frame3_other
   \<and> map_option (take (nat (2 * (int (nrows frame3) div 2)))) (demand_col frame3)
       = map_option (take (nat (2 * (int (nrows frame3_other) div 2)))) (demand_col frame3_other)
   \<and> demand_col frame3 \<noteq> demand_col frame3_other
   \<and> other_cols frame3 \<noteq> other_cols frame3_other
   \<and> build_two_stage_model gt_truthy frame3 2 (95 / 100)
       = build_two_stage_model gt_truthy frame3_other 2 (95 / 100)"
proof -
  have h: "wf_frame frame3" "wf_frame frame3_other"
    "map_option (take (nat (2 * (int (nrows frame3) div 2)))) (demand_col frame3)
       = map_option (take (nat (2 * (int (nrows frame3_other) div 2)))) (demand_col frame3_other)"
    by (simp_all add: wf_frame_def frame3_def frame3_other_def)
  have d: "demand_col frame3 \<noteq> demand_col frame3_other"
    "other_cols frame3 \<noteq> other_cols frame3_other"
    by (simp_all add: frame3_def frame3_other_def)
  from depends_only_on_demand_prefix[OF h] h d show ?thesis by blast
qed

subsection \<open>Solving\<close>

text \<open>
  C7. Whenever the external solver returns a results object, whatever its termination
  condition, \<open>solve_model\<close> returns the pair of the solved model and these results, and the
  solver has been called exactly once.
\<close>

theorem solve_model_surfaces_status:
  assumes "slv m = Inr (m1, results)"
  shows "fst (solve_model slv m w) = Inr (m1, results)
         \<and> solver_calls (snd (solve_model slv m w)) = solver_calls w + 1"
  using assms by (simp add: solve_model_def call_solver_def print_def)

text \<open>A solver that reports \<open>infeasible\<close>.\<close>

theorem solve_model_surfaces_status_witness:
  "solver_infeasible model3 = Inr (model3, results_infeasible)
   \<and> termination_condition results_infeasible = infeasible
   \<and> fst (solve_model solver_infeasible model3 world0) = Inr (model3, results_infeasible)
   \<and> solver_calls (snd (solve_model solver_infeasible model3 world0)) = solver_calls world0 + 1"
proof -
  have h: "solver_infeasible model3 = Inr (model3, results_infeasible)"
    by (simp add: solver_infeasible_def)
  have t: "termination_condition results_infeasible = infeasible"
    by (simp add: results_infeasible_def)
  from solve_model_surfaces_status[of solver_infeasible model3 model3 results_infeasible world0]
    h t show ?thesis by blast
qed

subsection \<open>Reading the results\<close>

text \<open>
  C8, as the code has it. The reading part of \<^verbatim>\<open>main\<close> never consults the results object:
  for every termination condition, when the objective expression can be evaluated (every
  variable in it holds a value), it returns the two capacities, the scenario costs in
  the order of \<^verbatim>\<open>SCENARIOS\<close> and the objective value, read from the model.
\<close>

theorem report_ignores_status:
  assumes "expr_value (param_value m) (var_value m) (obj m) = Inr v"
  shows "main_report m results
           = Inr \<lparr> windCapacity = var_value m Wind_capacity,
                   solarCapacity = var_value m Solar_capacity,
                   scenarioCosts = map (\<lambda>s. var_value m (Excess_cost s)) (SCENARIOS m),
                   objectiveValue = v \<rparr>"
  using assms by (simp add: main_report_def)

lemma solved3_objective:
  "expr_value (param_value solved3) (var_value solved3) (obj solved3) = Inr 26000"
  by (simp add: solved3_def model3_def point3_def)

text \<open>The model \<open>solved3\<close> with the results object whose status is \<open>infeasible\<close>.\<close>

theorem report_ignores_status_witness:
  "expr_value (param_value solved3) (var_value solved3) (obj solved3) = Inr 26000
   \<and> main_report solved3 results_infeasible
       = Inr \<lparr> windCapacity = var_value solved3 Wind_capacity,
               solarCapacity = var_value solved3 Solar_capacity,
               scenarioCosts = map (\<lambda>s. var_value solved3 (Excess_cost s)) (SCENARIOS solved3),
               objectiveValue = 26000 \<rparr>"
  using report_ignores_status[OF solved3_objective] solved3_objective by blast

text \<open>
  With status \<open>infeasible\<close>, neither optimal nor feasible, the four results are returned
  and nothing fails.
\<close>

theorem report_without_status_check:
  "termination_condition results_infeasible \<noteq> optimal
   \<and> termination_condition results_infeasible \<noteq> feasible
   \<and> main_report solved3 results_infeasible
       = Inr \<lparr> windCapacity = Some 20, solarCapacity = Some 0,
               scenarioCosts = [Some 20000, Some 20000], objectiveValue = 26000 \<rparr>"
  by (simp add: main_report_def solved3_objective results_infeasible_def)
     (simp add: solved3_def model3_def point3_def)

end
